theory Spec2Isabelle
  imports Main "HOL-Library.Sublist"
begin

section \<open>Python values and exceptions\<close>

text \<open>
  The values that \<^verbatim>\<open>response.json()\<close> produces and that the methods of
  \<^verbatim>\<open>SpaceImageExplorer\<close> return. A \<^verbatim>\<open>str\<close> is held as the bytes of its UTF-8
  encoding, a \<^verbatim>\<open>float\<close> by its \<^verbatim>\<open>repr\<close>, a \<^verbatim>\<open>dict\<close> with string keys as an
  association list read with \<^const>\<open>map_of\<close> (a dict has each key once).
\<close>

datatype py =
    PyNone
  | PyBool bool
  | PyInt int
  | PyFloat string
  | PyStr string
  | PyList "py list"
  | PyDict "(string \<times> py) list"

text \<open>An instance of \<^verbatim>\<open>Exception\<close>: its class name and its \<^verbatim>\<open>str(e)\<close>.\<close>

datatype exception = Raised (exc_class: string) (exc_str: string)

definition ebind :: "exception + 'a \<Rightarrow> ('a \<Rightarrow> exception + 'b) \<Rightarrow> exception + 'b" where
  "ebind m f = (case m of Inl e \<Rightarrow> Inl e | Inr x \<Rightarrow> f x)"

text \<open>\<^verbatim>\<open>try: body  except Exception as e: handler(e)\<close>\<close>

definition try_except :: "exception + 'a \<Rightarrow> (exception \<Rightarrow> exception + 'a) \<Rightarrow> exception + 'a" where
  "try_except body handler = (case body of Inl e \<Rightarrow> handler e | Inr x \<Rightarrow> Inr x)"

fun type_name :: "py \<Rightarrow> string" where
  "type_name PyNone = ''NoneType''"
| "type_name (PyBool _) = ''bool''"
| "type_name (PyInt _) = ''int''"
| "type_name (PyFloat _) = ''float''"
| "type_name (PyStr _) = ''str''"
| "type_name (PyList _) = ''list''"
| "type_name (PyDict _) = ''dict''"

definition quoted :: "string \<Rightarrow> string" where
  "quoted s = [CHR 0x27] @ s @ [CHR 0x27]"

definition key_error :: "string \<Rightarrow> exception" where
  "key_error k = Raised ''KeyError'' k"

definition attribute_error :: "py \<Rightarrow> string \<Rightarrow> exception" where
  "attribute_error v a =
     Raised ''AttributeError'' (quoted (type_name v) @ '' object has no attribute '' @ quoted a)"

definition not_subscriptable :: "py \<Rightarrow> exception" where
  "not_subscriptable v = Raised ''TypeError'' (quoted (type_name v) @ '' object is not subscriptable'')"

text \<open>Truth value of an object, as \<^verbatim>\<open>if x:\<close> and \<^verbatim>\<open>a and b\<close> test it.\<close>

fun truthy :: "py \<Rightarrow> bool" where
  "truthy PyNone = False"
| "truthy (PyBool b) = b"
| "truthy (PyInt n) = (n \<noteq> 0)"
| "truthy (PyFloat r) = (r \<noteq> ''0.0'' \<and> r \<noteq> ''-0.0'')"
| "truthy (PyStr s) = (s \<noteq> [])"
| "truthy (PyList xs) = (xs \<noteq> [])"
| "truthy (PyDict kvs) = (kvs \<noteq> [])"

text \<open>\<^verbatim>\<open>x.get(k, d)\<close>: only a dict has the method.\<close>

fun py_get :: "py \<Rightarrow> string \<Rightarrow> py \<Rightarrow> exception + py" where
  "py_get (PyDict kvs) k d = Inr (case map_of kvs k of None \<Rightarrow> d | Some v \<Rightarrow> v)"
| "py_get v k d = Inl (attribute_error v ''get'')"

text \<open>\<^verbatim>\<open>x[k]\<close> for a string key \<^verbatim>\<open>k\<close>.\<close>

fun py_getitem :: "py \<Rightarrow> string \<Rightarrow> exception + py" where
  "py_getitem (PyDict kvs) k =
     (case map_of kvs k of None \<Rightarrow> Inl (key_error (quoted k)) | Some v \<Rightarrow> Inr v)"
| "py_getitem (PyList xs) k =
     Inl (Raised ''TypeError'' ''list indices must be integers or slices, not str'')"
| "py_getitem (PyStr s) k =
     Inl (Raised ''TypeError'' (''string indices must be integers, not '' @ quoted ''str''))"
| "py_getitem v k = Inl (not_subscriptable v)"

text \<open>\<^verbatim>\<open>x[0]\<close>. Of a string it is the first character, here its first byte: the program
  goes on to call \<^verbatim>\<open>.get\<close> on it or to index it with a string, which a string of any
  content refuses.\<close>

fun py_getitem0 :: "py \<Rightarrow> exception + py" where
  "py_getitem0 (PyList []) = Inl (Raised ''IndexError'' ''list index out of range'')"
| "py_getitem0 (PyList (x # xs)) = Inr x"
| "py_getitem0 (PyStr []) = Inl (Raised ''IndexError'' ''string index out of range'')"
| "py_getitem0 (PyStr (c # cs)) = Inr (PyStr [c])"
| "py_getitem0 (PyDict kvs) = Inl (key_error ''0'')"
| "py_getitem0 v = Inl (not_subscriptable v)"

text \<open>\<^verbatim>\<open>k in x\<close> for a string \<^verbatim>\<open>k\<close>: a key of a dict, an element of a list, a
  substring of a string.\<close>

fun py_contains :: "string \<Rightarrow> py \<Rightarrow> exception + bool" where
  "py_contains k (PyDict kvs) = Inr (k \<in> set (map fst kvs))"
| "py_contains k (PyList xs) = Inr (PyStr k \<in> set xs)"
| "py_contains k (PyStr s) = Inr (sublist k s)"
| "py_contains k v =
     Inl (Raised ''TypeError'' (''argument of type '' @ quoted (type_name v) @ '' is not iterable''))"

text \<open>Reading a key of a returned dict.\<close>

definition field :: "py \<Rightarrow> string \<Rightarrow> py option" where
  "field r k = (case r of PyDict kvs \<Rightarrow> map_of kvs k | _ \<Rightarrow> None)"

subsection \<open>Formatting integers\<close>

definition digit_char :: "nat \<Rightarrow> char" where
  "digit_char d = char_of (48 + d)"

fun show_nat :: "nat \<Rightarrow> string" where
  "show_nat n = (if n < 10 then [digit_char n] else show_nat (n div 10) @ [digit_char (n mod 10)])"

declare show_nat.simps [simp del]

definition show_int :: "int \<Rightarrow> string" where
  "show_int i = (if i < 0 then CHR ''-'' # show_nat (nat (- i)) else show_nat (nat i))"

section \<open>The HTTP collaborator\<close>

text \<open>
  What \<^verbatim>\<open>requests.get(url, timeout=5)\<close> does: it raises, or it returns a response with
  a status code whose \<^verbatim>\<open>.json()\<close> returns the parsed body or raises. The network is
  a function from the URL to that outcome.
\<close>

datatype http_outcome =
    Raises exception
  | Response (status_code: int) (json: "exception + py")

type_synonym network = "string \<Rightarrow> http_outcome"

section \<open>get\_daily\_nasa\_image\<close>

definition apod_url :: "string \<Rightarrow> string" where
  "apod_url nasa_api_key = ''https://api.nasa.gov/planetary/apod?api_key='' @ nasa_api_key"

definition failure :: "string \<Rightarrow> py" where
  "failure msg = PyDict [(''success'', PyBool False), (''error'', PyStr msg)]"

definition get_daily_nasa_image :: "network \<Rightarrow> string \<Rightarrow> exception + py" where
  "get_daily_nasa_image net nasa_api_key =
     try_except
       (case net (apod_url nasa_api_key) of
          Raises e \<Rightarrow> Inl e
        | Response code body \<Rightarrow>
            if code = 200 then
              ebind body (\<lambda>data.
              ebind (py_get data ''title'' PyNone) (\<lambda>title.
              ebind (py_get data ''url'' PyNone) (\<lambda>url.
              ebind (py_get data ''explanation'' PyNone) (\<lambda>explanation.
              ebind (py_get data ''date'' PyNone) (\<lambda>date.
                Inr (PyDict [(''success'', PyBool True),
                             (''title'', title),
                             (''url'', url),
                             (''explanation'', explanation),
                             (''date'', date)]))))))
            else Inr (failure (''Status code: '' @ show_int code)))
       (\<lambda>e. Inr (failure (exc_str e)))"

section \<open>Strings\<close>

text \<open>
  \<^verbatim>\<open>str.lower\<close>, \<^verbatim>\<open>str.strip\<close> and \<^verbatim>\<open>str.split\<close> on the ASCII range: the letters
  \<^verbatim>\<open>A\<close> to \<^verbatim>\<open>Z\<close> are lowered, and the ASCII characters that \<^verbatim>\<open>str.isspace\<close>
  accepts are stripped. Python's methods also lower the letters and strip the spaces that
  lie outside ASCII; the model leaves the bytes of such a character as they are. The
  program looks in a lowered text only for the ASCII words \<^verbatim>\<open>explain:\<close>, \<^verbatim>\<open>flare\<close> and
  \<^verbatim>\<open>aurora\<close>.
\<close>

definition lower_char :: "char \<Rightarrow> char" where
  "lower_char c = (let n = (of_char c :: nat) in if 65 \<le> n \<and> n \<le> 90 then char_of (n + 32) else c)"

definition lower :: "string \<Rightarrow> string" where
  "lower s = map lower_char s"

definition is_space :: "char \<Rightarrow> bool" where
  "is_space c = (let n = (of_char c :: nat) in (9 \<le> n \<and> n \<le> 13) \<or> (28 \<le> n \<and> n \<le> 32))"

definition strip :: "string \<Rightarrow> string" where
  "strip s = rev (dropWhile is_space (rev (dropWhile is_space s)))"

text \<open>
  \<^verbatim>\<open>s.split(sep)\<close> scans from the left: where \<^verbatim>\<open>sep\<close> starts, the piece read so far
  is closed and the scan resumes behind the separator.
\<close>

function split_from :: "string \<Rightarrow> string \<Rightarrow> string \<Rightarrow> string list" where
  "split_from sep cur [] = [cur]"
| "split_from sep cur (c # cs) =
     (if sep \<noteq> [] \<and> prefix sep (c # cs)
      then cur # split_from sep [] (drop (length sep) (c # cs))
      else split_from sep (cur @ [c]) cs)"
  by pat_completeness auto
termination
  by (relation "measure (\<lambda>(sep, cur, s). length s)") auto

definition py_split :: "string \<Rightarrow> string \<Rightarrow> exception + string list" where
  "py_split s sep =
     (if sep = [] then Inl (Raised ''ValueError'' ''empty separator'') else Inr (split_from sep [] s))"

text \<open>\<^verbatim>\<open>xs[-1]\<close>\<close>

definition py_last :: "'a list \<Rightarrow> exception + 'a" where
  "py_last xs = (if xs = [] then Inl (Raised ''IndexError'' ''list index out of range'') else Inr (last xs))"

text \<open>\<^verbatim>\<open>x.lower()\<close>: only a string has the method.\<close>

fun py_lower :: "py \<Rightarrow> exception + string" where
  "py_lower (PyStr s) = Inr (lower s)"
| "py_lower v = Inl (attribute_error v ''lower'')"

text \<open>
  \<^verbatim>\<open>str(x)\<close>, as an f-string formats a value. The text of a list or a dict is not
  modelled: no f-string of the program is reached with one.
\<close>

fun py_str :: "py \<Rightarrow> string" where
  "py_str PyNone = ''None''"
| "py_str (PyBool b) = (if b then ''True'' else ''False'')"
| "py_str (PyInt i) = show_int i"
| "py_str (PyFloat r) = r"
| "py_str (PyStr s) = s"
| "py_str (PyList xs) = []"
| "py_str (PyDict kvs) = []"

text \<open>\<^verbatim>\<open>random.choice(seq)\<close>, with the draw of the generator as an argument.\<close>

definition choice :: "nat \<Rightarrow> 'a list \<Rightarrow> exception + 'a" where
  "choice draw xs =
     (if xs = [] then Inl (Raised ''IndexError'' ''Cannot choose from an empty sequence'')
      else Inr (xs ! (draw mod length xs)))"

subsection \<open>The emoji of the source, in UTF-8\<close>

definition emoji_open_mouth :: string where "emoji_open_mouth = [CHR 0xF0, CHR 0x9F, CHR 0x98, CHR 0xAE]"
definition emoji_footprints :: string where "emoji_footprints = [CHR 0xF0, CHR 0x9F, CHR 0x91, CHR 0xA3]"
definition emoji_bathtub :: string where "emoji_bathtub = [CHR 0xF0, CHR 0x9F, CHR 0x9B, CHR 0x81]"
definition emoji_rocket :: string where "emoji_rocket = [CHR 0xF0, CHR 0x9F, CHR 0x9A, CHR 0x80]"
definition emoji_sparkles :: string where "emoji_sparkles = [CHR 0xE2, CHR 0x9C, CHR 0xA8]"
definition emoji_saucer :: string where "emoji_saucer = [CHR 0xF0, CHR 0x9F, CHR 0x9B, CHR 0xB8]"
definition emoji_warning :: string where "emoji_warning = [CHR 0xE2, CHR 0x9A, CHR 0xA0, CHR 0xEF, CHR 0xB8, CHR 0x8F]"
definition emoji_siren :: string where "emoji_siren = [CHR 0xF0, CHR 0x9F, CHR 0x9A, CHR 0xA8]"
definition emoji_high_voltage :: string where "emoji_high_voltage = [CHR 0xE2, CHR 0x9A, CHR 0xA1]"
definition emoji_sun :: string where "emoji_sun = [CHR 0xF0, CHR 0x9F, CHR 0x8C, CHR 0x9E]"
definition emoji_milky_way :: string where "emoji_milky_way = [CHR 0xF0, CHR 0x9F, CHR 0x8C, CHR 0x8C]"
definition emoji_glowing_star :: string where "emoji_glowing_star = [CHR 0xF0, CHR 0x9F, CHR 0x8C, CHR 0x9F]"
definition emoji_crescent_moon :: string where "emoji_crescent_moon = [CHR 0xF0, CHR 0x9F, CHR 0x8C, CHR 0x99]"
definition emoji_shooting_star :: string where "emoji_shooting_star = [CHR 0xF0, CHR 0x9F, CHR 0x8C, CHR 0xA0]"
definition emoji_fireworks :: string where "emoji_fireworks = [CHR 0xF0, CHR 0x9F, CHR 0x8E, CHR 0x86]"
definition emoji_comet :: string where "emoji_comet = [CHR 0xE2, CHR 0x98, CHR 0x84, CHR 0xEF, CHR 0xB8, CHR 0x8F]"

section \<open>search\_nasa\_images\<close>

definition search_url :: "string \<Rightarrow> string" where
  "search_url query = ''https://images-api.nasa.gov/search?q='' @ query @ ''&media_type=image''"

text \<open>\<^verbatim>\<open>for item in x[:5]\<close>: the items the loop visits.\<close>

fun py_slice5 :: "py \<Rightarrow> exception + py list" where
  "py_slice5 (PyList xs) = Inr (take 5 xs)"
| "py_slice5 (PyStr s) = Inr (map (\<lambda>c. PyStr [c]) (take 5 s))"
| "py_slice5 (PyDict kvs) = Inl (Raised ''TypeError'' (''unhashable type: '' @ quoted ''slice''))"
| "py_slice5 v = Inl (not_subscriptable v)"

text \<open>\<^verbatim>\<open>'links' in item and item['links']\<close>, as the \<^verbatim>\<open>if\<close> tests it.\<close>

definition has_links :: "py \<Rightarrow> exception + bool" where
  "has_links item =
     ebind (py_contains ''links'' item) (\<lambda>present.
       if present then ebind (py_getitem item ''links'') (\<lambda>links. Inr (truthy links))
       else Inr False)"

text \<open>The dict literal \<^verbatim>\<open>image_data\<close>; its values are evaluated in the order written.\<close>

definition image_data :: "py \<Rightarrow> exception + py" where
  "image_data item =
     ebind (py_getitem item ''data'') (\<lambda>d1. ebind (py_getitem0 d1) (\<lambda>e1.
     ebind (py_get e1 ''title'' (PyStr ''No title'')) (\<lambda>title.
     ebind (py_getitem item ''data'') (\<lambda>d2. ebind (py_getitem0 d2) (\<lambda>e2.
     ebind (py_get e2 ''description'' (PyStr ''No description'')) (\<lambda>description.
     ebind (py_getitem item ''links'') (\<lambda>ls. ebind (py_getitem0 ls) (\<lambda>l0.
     ebind (py_getitem l0 ''href'') (\<lambda>url.
     ebind (py_getitem item ''data'') (\<lambda>d3. ebind (py_getitem0 d3) (\<lambda>e3.
     ebind (py_get e3 ''date_created'' (PyStr ''Unknown date'')) (\<lambda>date_created.
       Inr (PyDict [(''title'', title),
                    (''description'', description),
                    (''url'', url),
                    (''date_created'', date_created)])))))))))))))"

text \<open>The loop, with \<^verbatim>\<open>images\<close> as the accumulator.\<close>

fun collect_images :: "py list \<Rightarrow> py list \<Rightarrow> exception + py list" where
  "collect_images images [] = Inr images"
| "collect_images images (item # items) =
     (case has_links item of
        Inl e \<Rightarrow> Inl e
      | Inr True \<Rightarrow>
          (case image_data item of
             Inl e \<Rightarrow> Inl e
           | Inr d \<Rightarrow> collect_images (images @ [d]) items)
      | Inr False \<Rightarrow> collect_images images items)"

definition search_nasa_images :: "network \<Rightarrow> string \<Rightarrow> exception + py" where
  "search_nasa_images net query =
     try_except
       (case net (search_url query) of
          Raises e \<Rightarrow> Inl e
        | Response code body \<Rightarrow>
            if code = 200 then
              ebind body (\<lambda>data.
              ebind (py_getitem data ''collection'') (\<lambda>collection.
              ebind (py_contains ''items'' collection) (\<lambda>present.
              ebind (if present
                     then ebind (py_getitem data ''collection'') (\<lambda>collection.
                          ebind (py_getitem collection ''items'') (\<lambda>items.
                          ebind (py_slice5 items) (\<lambda>first5.
                            collect_images [] first5)))
                     else Inr []) (\<lambda>images.
                Inr (PyDict [(''success'', PyBool True), (''images'', PyList images)])))))
            else Inr (failure (''Status code: '' @ show_int code)))
       (\<lambda>e. Inr (failure (exc_str e)))"

section \<open>chat\_with\_space\_expert\<close>

text \<open>
  The text-generation service: the tokenizer returns a mapping that is read at
  \<^verbatim>\<open>"input_ids"\<close>, \<^verbatim>\<open>model.generate\<close> returns the generated sequences, of which the
  first is decoded. Each of the three calls returns or raises. The generation
  parameters are constants of the call.
\<close>

record ('ids, 'seq) generation_service =
  tokenizer :: "string \<Rightarrow> exception + (string \<times> 'ids) list"
  generate :: "'ids \<Rightarrow> exception + 'seq list"
  decode :: "'seq \<Rightarrow> exception + string"

definition fun_facts :: "string list" where
  "fun_facts =
     [''A day on Venus is longer than its year! '' @ emoji_open_mouth,
      ''The footprints on the Moon will stay there for millions of years! '' @ emoji_footprints,
      ''Saturn could float in a giant bathtub because it'' @ [CHR 0x27]
        @ ''s less dense than water! '' @ emoji_bathtub]"

definition input_ids :: "(string \<times> 'ids) list \<Rightarrow> exception + 'ids" where
  "input_ids inputs =
     (case map_of inputs ''input_ids'' of
        None \<Rightarrow> Inl (key_error (quoted ''input_ids''))
      | Some ids \<Rightarrow> Inr ids)"

text \<open>\<^verbatim>\<open>outputs[0]\<close>\<close>

definition first_output :: "'seq list \<Rightarrow> exception + 'seq" where
  "first_output outputs =
     (case outputs of
        [] \<Rightarrow> Inl (Raised ''IndexError'' ''index 0 is out of bounds for dimension 0 with size 0'')
      | out # _ \<Rightarrow> Inr out)"

text \<open>
  \<^verbatim>\<open>response.split("explain:")[-1].strip() if "explain:" in response.lower() else response\<close>
\<close>

definition clean_response :: "string \<Rightarrow> exception + string" where
  "clean_response response =
     (if sublist ''explain:'' (lower response)
      then ebind (py_split response ''explain:'') (\<lambda>pieces.
           ebind (py_last pieces) (\<lambda>piece. Inr (strip piece)))
      else Inr response)"

definition apology :: "exception \<Rightarrow> string" where
  "apology e =
     ''Houston, we have a problem! '' @ emoji_rocket
       @ '' Please try asking that question differently. Error: '' @ exc_str e"

definition chat_with_space_expert ::
  "('ids, 'seq) generation_service \<Rightarrow> nat \<Rightarrow> string \<Rightarrow> exception + string" where
  "chat_with_space_expert service draw message =
     try_except
       (let prompt = ''As a space expert, explain: '' @ message in
        ebind (tokenizer service prompt) (\<lambda>inputs.
        ebind (input_ids inputs) (\<lambda>ids.
        ebind (generate service ids) (\<lambda>outputs.
        ebind (first_output outputs) (\<lambda>out.
        ebind (decode service out) (\<lambda>response.
        ebind (clean_response response) (\<lambda>response.
        ebind (choice draw fun_facts) (\<lambda>fun_fact.
          Inr (emoji_rocket @ '' '' @ response @ [CHR 0x0A, CHR 0x0A]
                 @ emoji_sparkles @ '' Fun Fact: '' @ fun_fact)))))))))
       (\<lambda>e. Inr (apology e))"

section \<open>get\_space\_weather\<close>

definition donki_url :: "string \<Rightarrow> string" where
  "donki_url nasa_api_key = ''https://api.nasa.gov/DONKI/notifications?api_key='' @ nasa_api_key"

definition weather_types :: "(string \<times> string) list" where
  "weather_types =
     [(''Report'', emoji_saucer),
      (''Watch'', emoji_warning),
      (''Warning'', emoji_siren),
      (''Alert'', emoji_high_voltage)]"

text \<open>\<^verbatim>\<open>weather_types.get(message_type, d)\<close>: a list or a dict cannot be hashed, and
  no other key than one of the four strings is in the table.\<close>

fun weather_types_get :: "py \<Rightarrow> string \<Rightarrow> exception + string" where
  "weather_types_get (PyStr s) d = Inr (case map_of weather_types s of None \<Rightarrow> d | Some e \<Rightarrow> e)"
| "weather_types_get (PyList xs) d = Inl (Raised ''TypeError'' (''unhashable type: '' @ quoted ''list''))"
| "weather_types_get (PyDict kvs) d = Inl (Raised ''TypeError'' (''unhashable type: '' @ quoted ''dict''))"
| "weather_types_get v d = Inr d"

definition condition :: "string \<Rightarrow> py \<Rightarrow> string \<Rightarrow> py" where
  "condition l v e = PyDict [(''label'', PyStr l), (''value'', v), (''emoji'', PyStr e)]"

text \<open>\<^verbatim>\<open>now\<close> is \<^verbatim>\<open>datetime.now().strftime("%I:%M %p")\<close> at the call.\<close>

definition format_real_weather :: "string \<Rightarrow> py \<Rightarrow> exception + py" where
  "format_real_weather now data =
     ebind (py_get data ''messageType'' (PyStr ''Report'')) (\<lambda>message_type.
     ebind (weather_types_get message_type emoji_saucer) (\<lambda>emoji.
     ebind (py_get data ''messageBody'' (PyStr [])) (\<lambda>body1.
     ebind (py_lower body1) (\<lambda>lowered1.
     ebind (py_get data ''messageBody'' (PyStr [])) (\<lambda>body2.
     ebind (py_lower body2) (\<lambda>lowered2.
     ebind (py_get data ''messageBody''
              (PyStr ''Space weather information currently unavailable'')) (\<lambda>description.
       Inr (PyDict
         [(''status'', PyStr (emoji @ '' Space Weather '' @ py_str message_type)),
          (''conditions'', PyList
             [condition ''Current Activity'' message_type emoji,
              condition ''Solar Activity''
                (PyStr (if sublist ''flare'' lowered1 then ''Active'' else ''Calm'')) emoji_sun,
              condition ''Aurora Forecast''
                (PyStr (if sublist ''aurora'' lowered2 then ''Visible'' else ''Not Visible''))
                emoji_milky_way]),
          (''description'', description),
          (''time'', PyStr now)]))))))))"

definition scenarios :: "py list" where
  "scenarios =
     [PyDict
        [(''status'', PyStr (emoji_glowing_star @ '' Perfect Space Weather'')),
         (''conditions'', PyList
            [condition ''Current Activity'' (PyStr ''Calm'') emoji_sparkles,
             condition ''Solar Activity'' (PyStr ''Low'') emoji_sun,
             condition ''Aurora Forecast'' (PyStr ''Not Visible'') emoji_crescent_moon]),
         (''description'', PyStr
            ''Perfect conditions for stargazing tonight! The Milky Way should be clearly visible.'')],
      PyDict
        [(''status'', PyStr (emoji_shooting_star @ '' Aurora Alert'')),
         (''conditions'', PyList
            [condition ''Current Activity'' (PyStr ''Active'') emoji_high_voltage,
             condition ''Solar Activity'' (PyStr ''High'') emoji_sun,
             condition ''Aurora Forecast'' (PyStr ''Visible'') emoji_fireworks]),
         (''description'', PyStr
            ''A solar storm is creating perfect conditions for aurora viewing! Look toward the northern horizon tonight.'')],
      PyDict
        [(''status'', PyStr (emoji_comet @ '' Meteor Shower'')),
         (''conditions'', PyList
            [condition ''Current Activity'' (PyStr ''Special Event'') emoji_comet,
             condition ''Solar Activity'' (PyStr ''Normal'') emoji_sun,
             condition ''Aurora Forecast'' (PyStr ''Not Visible'') emoji_crescent_moon]),
         (''description'', PyStr
            ''A meteor shower is expected tonight! Best viewing hours are between 11 PM and 3 AM.'')]]"

text \<open>\<^verbatim>\<open>d[k] = v\<close>: the key keeps its place if the dict has it, and is added at the
  end otherwise.\<close>

fun assoc_set :: "string \<Rightarrow> py \<Rightarrow> (string \<times> py) list \<Rightarrow> (string \<times> py) list" where
  "assoc_set k v [] = [(k, v)]"
| "assoc_set k v ((k', v') # kvs) =
     (if k' = k then (k, v) # kvs else (k', v') # assoc_set k v kvs)"

fun py_setitem :: "py \<Rightarrow> string \<Rightarrow> py \<Rightarrow> exception + py" where
  "py_setitem (PyDict kvs) k v = Inr (PyDict (assoc_set k v kvs))"
| "py_setitem (PyList xs) k v =
     Inl (Raised ''TypeError'' ''list indices must be integers or slices, not str'')"
| "py_setitem x k v =
     Inl (Raised ''TypeError'' (quoted (type_name x) @ '' object does not support item assignment''))"

definition generate_simulated_weather :: "nat \<Rightarrow> string \<Rightarrow> exception + py" where
  "generate_simulated_weather draw now =
     ebind (choice draw scenarios) (\<lambda>weather. py_setitem weather ''time'' (PyStr now))"

text \<open>
  The \<^verbatim>\<open>try\<close> block of \<^verbatim>\<open>get_space_weather\<close>: \<^verbatim>\<open>Some\<close> is its \<^verbatim>\<open>return\<close>,
  \<^verbatim>\<open>None\<close> is leaving the block without one.
\<close>

definition attempt_real :: "network \<Rightarrow> string \<Rightarrow> string \<Rightarrow> exception + py option" where
  "attempt_real net nasa_api_key now =
     (case net (donki_url nasa_api_key) of
        Raises e \<Rightarrow> Inl e
      | Response code body \<Rightarrow>
          if code = 200 then
            ebind body (\<lambda>data.
              if truthy data then
                ebind (py_getitem0 data) (\<lambda>entry.
                ebind (format_real_weather now entry) (\<lambda>weather. Inr (Some weather)))
              else Inr None)
          else Inr None)"

definition get_space_weather :: "network \<Rightarrow> string \<Rightarrow> nat \<Rightarrow> string \<Rightarrow> exception + py" where
  "get_space_weather net nasa_api_key draw now =
     (case try_except (attempt_real net nasa_api_key now) (\<lambda>e. Inr None) of
        Inl e \<Rightarrow> Inl e
      | Inr (Some weather) \<Rightarrow> Inr weather
      | Inr None \<Rightarrow> generate_simulated_weather draw now)"

section \<open>Notions used in the statements\<close>

text \<open>The labels of the conditions of a weather result, in order, as the weather tab
  reads them (\<^verbatim>\<open>cond['label'] for cond in weather['conditions']\<close>).\<close>

definition labels :: "py \<Rightarrow> py option list" where
  "labels w =
     (case field w ''conditions'' of
        Some (PyList cs) \<Rightarrow> map (\<lambda>c. field c ''label'') cs
      | _ \<Rightarrow> [])"

text \<open>The items for which the test \<^verbatim>\<open>'links' in item and item['links']\<close> holds.\<close>

definition linked :: "py list \<Rightarrow> py list" where
  "linked items = filter (\<lambda>item. has_links item = Inr True) items"

text \<open>The emoji of a message type: its entry in \<^const>\<open>weather_types\<close>, and the emoji of
  \<^verbatim>\<open>Report\<close> for a string that has none.\<close>

definition emoji_for :: "string \<Rightarrow> string" where
  "emoji_for message_type =
     (if message_type = ''Report'' then emoji_saucer
      else if message_type = ''Watch'' then emoji_warning
      else if message_type = ''Warning'' then emoji_siren
      else if message_type = ''Alert'' then emoji_high_voltage
      else emoji_saucer)"

subsection \<open>Example responses of the search endpoint\<close>

definition search_body :: "py list \<Rightarrow> py" where
  "search_body items = PyDict [(''collection'', PyDict [(''items'', PyList items)])]"

definition item_with_link :: "string \<Rightarrow> string \<Rightarrow> py" where
  "item_with_link t href =
     PyDict [(''data'', PyList [PyDict [(''title'', PyStr t)]]),
             (''links'', PyList [PyDict [(''href'', PyStr href)]])]"

definition item_without_links :: "string \<Rightarrow> py" where
  "item_without_links t = PyDict [(''data'', PyList [PyDict [(''title'', PyStr t)]])]"

text \<open>The image that \<^const>\<open>image_data\<close> builds from \<^const>\<open>item_with_link\<close>.\<close>

definition image_of :: "string \<Rightarrow> string \<Rightarrow> py" where
  "image_of t href =
     PyDict [(''title'', PyStr t),
             (''description'', PyStr ''No description''),
             (''url'', PyStr href),
             (''date_created'', PyStr ''Unknown date'')]"

section \<open>The daily image\<close>

text \<open>
  Claim C6. A 200 response of the daily-image endpoint whose body is a JSON object gives
  \<^verbatim>\<open>success\<close> true; each of \<^verbatim>\<open>title\<close>, \<^verbatim>\<open>url\<close>, \<^verbatim>\<open>explanation\<close> and \<^verbatim>\<open>date\<close>
  is \<^verbatim>\<open>None\<close> in the result when the body does not have it (no default string stands in),
  and is the body's value unchanged when it does.
\<close>

theorem daily_image_fields:
  assumes "net (apod_url nasa_api_key) = Response 200 (Inr (PyDict body))"
  shows "\<exists>r. get_daily_nasa_image net nasa_api_key = Inr r
           \<and> field r ''success'' = Some (PyBool True)
           \<and> (\<forall>k \<in> {''title'', ''url'', ''explanation'', ''date''}.
                 field r k = Some (case map_of body k of None \<Rightarrow> PyNone | Some v \<Rightarrow> v))"
  using assms by (simp add: get_daily_nasa_image_def try_except_def ebind_def field_def)

theorem daily_image_fields_witness:
  "get_daily_nasa_image
     (\<lambda>u. Response 200 (Inr (PyDict [(''title'', PyStr ''M31''), (''date'', PyStr ''2025-02-09'')])))
     ''DEMO_KEY''
   = Inr (PyDict [(''success'', PyBool True),
                  (''title'', PyStr ''M31''),
                  (''url'', PyNone),
                  (''explanation'', PyNone),
                  (''date'', PyStr ''2025-02-09'')])"
  using daily_image_fields
    [of "\<lambda>u. Response 200 (Inr (PyDict [(''title'', PyStr ''M31''), (''date'', PyStr ''2025-02-09'')]))"
        "''DEMO_KEY''" "[(''title'', PyStr ''M31''), (''date'', PyStr ''2025-02-09'')]"]
  by (simp add: get_daily_nasa_image_def try_except_def ebind_def field_def)

text \<open>
  Claim C5, as the code has it. When the status code is not 200 the result has
  \<^verbatim>\<open>success\<close> false and the error \<^verbatim>\<open>Status code: <code>\<close>; when the request raises, it has
  \<^verbatim>\<open>success\<close> false and the error \<^verbatim>\<open>str(e)\<close>. The error is empty exactly when the request
  raised an exception whose description is empty.
\<close>

theorem daily_image_failure:
  assumes "net (apod_url nasa_api_key) = Response code body \<and> code \<noteq> 200
             \<and> msg = ''Status code: '' @ show_int code
           \<or> net (apod_url nasa_api_key) = Raises e \<and> msg = exc_str e"
  shows "get_daily_nasa_image net nasa_api_key
           = Inr (PyDict [(''success'', PyBool False), (''error'', PyStr msg)])
         \<and> (msg = [] \<longleftrightarrow> net (apod_url nasa_api_key) = Raises e \<and> exc_str e = [])"
  using assms by (auto simp add: get_daily_nasa_image_def try_except_def failure_def)

theorem daily_image_failure_witness:
  "get_daily_nasa_image
     (\<lambda>u. Response 503 (Inl (Raised ''JSONDecodeError'' ''Expecting value''))) ''DEMO_KEY''
   = Inr (PyDict [(''success'', PyBool False), (''error'', PyStr ''Status code: 503'')])"
proof -
  have "show_int 503 = ''503''" by code_simp
  then show ?thesis
    using daily_image_failure
      [of "\<lambda>u. Response 503 (Inl (Raised ''JSONDecodeError'' ''Expecting value''))"
          "''DEMO_KEY''" 503 "Inl (Raised ''JSONDecodeError'' ''Expecting value'')"
          "''Status code: 503''"]
    by simp
qed

text \<open>
  Claim C5 as stated fails: a request that raises an exception with an empty description
  (\<^verbatim>\<open>requests.Timeout()\<close>, say) gives \<^verbatim>\<open>success\<close> false with an empty error.
\<close>

theorem daily_image_empty_error:
  "get_daily_nasa_image (\<lambda>u. Raises (Raised ''Timeout'' [])) ''DEMO_KEY''
     = Inr (PyDict [(''success'', PyBool False), (''error'', PyStr [])])"
  by (simp add: get_daily_nasa_image_def try_except_def failure_def)

section \<open>Space weather\<close>

subsection \<open>The fallback generator\<close>

lemma choice_scenarios: "choice draw scenarios = Inr (scenarios ! (draw mod 3))"
  by (simp add: choice_def scenarios_def)

lemma simulated_eq:
  "generate_simulated_weather draw now = py_setitem (scenarios ! (draw mod 3)) ''time'' (PyStr now)"
  by (simp add: generate_simulated_weather_def choice_scenarios ebind_def)

lemma simulated_cases:
  "generate_simulated_weather draw now \<in> (\<lambda>s. py_setitem s ''time'' (PyStr now)) ` set scenarios"
proof -
  have "draw mod 3 < length scenarios" by (simp add: scenarios_def)
  then have "scenarios ! (draw mod 3) \<in> set scenarios" by (rule nth_mem)
  then show ?thesis unfolding simulated_eq by (rule imageI)
qed

lemma stamped_scenario:
  assumes "s \<in> set scenarios"
  shows "\<exists>w. py_setitem s ''time'' (PyStr now) = Inr w
           \<and> field w ''status'' = field s ''status''
           \<and> field w ''conditions'' = field s ''conditions''
           \<and> field w ''description'' = field s ''description''
           \<and> labels w = [Some (PyStr ''Current Activity''), Some (PyStr ''Solar Activity''),
                          Some (PyStr ''Aurora Forecast'')]"
  using assms by (auto simp add: scenarios_def field_def labels_def condition_def)

lemma scenario_status:
  assumes "s \<in> set scenarios"
  shows "field s ''status'' \<in>
           {Some (PyStr (emoji_glowing_star @ '' Perfect Space Weather'')),
            Some (PyStr (emoji_shooting_star @ '' Aurora Alert'')),
            Some (PyStr (emoji_comet @ '' Meteor Shower''))}"
  using assms by (auto simp add: scenarios_def field_def)

text \<open>
  Claim C1. When the request to the notifications endpoint raises, \<^verbatim>\<open>get_space_weather\<close>
  does not raise: it returns one of the three scenarios of the table with its status,
  conditions and description as the table has them, and the status is one of the three
  fixed strings.
\<close>

theorem space_weather_fallback:
  assumes "net (donki_url nasa_api_key) = Raises e"
  shows "\<exists>w s. get_space_weather net nasa_api_key draw now = Inr w \<and> s \<in> set scenarios
           \<and> field w ''status'' = field s ''status''
           \<and> field w ''conditions'' = field s ''conditions''
           \<and> field w ''description'' = field s ''description''
           \<and> field w ''status'' \<in>
                {Some (PyStr (emoji_glowing_star @ '' Perfect Space Weather'')),
                 Some (PyStr (emoji_shooting_star @ '' Aurora Alert'')),
                 Some (PyStr (emoji_comet @ '' Meteor Shower''))}"
proof -
  from assms have g: "get_space_weather net nasa_api_key draw now = generate_simulated_weather draw now"
    by (simp add: get_space_weather_def attempt_real_def try_except_def)
  obtain s where s: "s \<in> set scenarios"
    and "generate_simulated_weather draw now = py_setitem s ''time'' (PyStr now)"
    using simulated_cases [of draw now] by auto
  with g have r: "get_space_weather net nasa_api_key draw now = py_setitem s ''time'' (PyStr now)"
    by simp
  from stamped_scenario [OF s, of now] obtain w where w: "py_setitem s ''time'' (PyStr now) = Inr w"
    "field w ''status'' = field s ''status''" "field w ''conditions'' = field s ''conditions''"
    "field w ''description'' = field s ''description''" by blast
  show ?thesis
  proof (rule exI [of _ w], rule exI [of _ s], intro conjI)
    show "get_space_weather net nasa_api_key draw now = Inr w" using r w(1) by simp
    show "s \<in> set scenarios" by (rule s)
    show "field w ''status'' = field s ''status''" by (rule w(2))
    show "field w ''conditions'' = field s ''conditions''" by (rule w(3))
    show "field w ''description'' = field s ''description''" by (rule w(4))
    show "field w ''status'' \<in>
            {Some (PyStr (emoji_glowing_star @ '' Perfect Space Weather'')),
             Some (PyStr (emoji_shooting_star @ '' Aurora Alert'')),
             Some (PyStr (emoji_comet @ '' Meteor Shower''))}"
      using scenario_status [OF s] by (simp only: w(2))
  qed
qed

theorem space_weather_fallback_witness:
  "get_space_weather (\<lambda>u. Raises (Raised ''ConnectTimeout'' ''timed out'')) ''DEMO_KEY'' 4 ''09:47 AM''
     = Inr (PyDict
        [(''status'', PyStr (emoji_shooting_star @ '' Aurora Alert'')),
         (''conditions'', PyList
            [condition ''Current Activity'' (PyStr ''Active'') emoji_high_voltage,
             condition ''Solar Activity'' (PyStr ''High'') emoji_sun,
             condition ''Aurora Forecast'' (PyStr ''Visible'') emoji_fireworks]),
         (''description'', PyStr
            ''A solar storm is creating perfect conditions for aurora viewing! Look toward the northern horizon tonight.''),
         (''time'', PyStr ''09:47 AM'')])"
proof -
  have "(4::nat) mod 3 = 1" by simp
  then have "generate_simulated_weather 4 ''09:47 AM'' = py_setitem (scenarios ! 1) ''time'' (PyStr ''09:47 AM'')"
    by (simp add: simulated_eq)
  then show ?thesis
    using space_weather_fallback
      [of "\<lambda>u. Raises (Raised ''ConnectTimeout'' ''timed out'')" "''DEMO_KEY''"
          "Raised ''ConnectTimeout'' ''timed out''" 4 "''09:47 AM''"]
    by (simp add: get_space_weather_def attempt_real_def try_except_def scenarios_def)
qed

subsection \<open>The conditions of every result\<close>

lemma simulated_labels:
  "\<exists>w. generate_simulated_weather draw now = Inr w
     \<and> labels w = [Some (PyStr ''Current Activity''), Some (PyStr ''Solar Activity''),
                    Some (PyStr ''Aurora Forecast'')]"
proof -
  obtain s where "s \<in> set scenarios"
    and "generate_simulated_weather draw now = py_setitem s ''time'' (PyStr now)"
    using simulated_cases [of draw now] by auto
  with stamped_scenario [of s now] show ?thesis by auto
qed

lemma real_labels:
  "format_real_weather now data = Inr w \<Longrightarrow>
     labels w = [Some (PyStr ''Current Activity''), Some (PyStr ''Solar Activity''),
                 Some (PyStr ''Aurora Forecast'')]"
  by (auto simp add: format_real_weather_def ebind_def labels_def field_def condition_def
           split: sum.splits)

text \<open>
  Claim C4. \<^verbatim>\<open>get_space_weather\<close> always returns a result, from the real data or from the
  fallback generator, and its conditions are exactly three entries labelled, in order,
  \<^verbatim>\<open>Current Activity\<close>, \<^verbatim>\<open>Solar Activity\<close>, \<^verbatim>\<open>Aurora Forecast\<close>.
\<close>

theorem weather_conditions_fixed:
  "\<exists>w. get_space_weather net nasa_api_key draw now = Inr w
     \<and> labels w = [Some (PyStr ''Current Activity''), Some (PyStr ''Solar Activity''),
                    Some (PyStr ''Aurora Forecast'')]"
proof (cases "try_except (attempt_real net nasa_api_key now) (\<lambda>e. Inr None)")
  case (Inl e)
  then show ?thesis by (simp add: try_except_def split: sum.splits)
next
  case (Inr r)
  show ?thesis
  proof (cases r)
    case None
    with Inr show ?thesis
      using simulated_labels [of draw now] by (simp add: get_space_weather_def)
  next
    case (Some w)
    with Inr have "attempt_real net nasa_api_key now = Inr (Some w)"
      by (simp add: try_except_def split: sum.splits)
    then have "\<exists>entry. format_real_weather now entry = Inr w"
      by (auto simp add: attempt_real_def ebind_def split: http_outcome.splits if_splits sum.splits)
    then have "labels w = [Some (PyStr ''Current Activity''), Some (PyStr ''Solar Activity''),
                           Some (PyStr ''Aurora Forecast'')]"
      using real_labels by blast
    with Inr Some show ?thesis by (simp add: get_space_weather_def)
  qed
qed

subsection \<open>Formatting a real notification\<close>

text \<open>The test \<^verbatim>\<open>needle in s.lower()\<close> holds exactly when some substring of \<^verbatim>\<open>s\<close> is
  \<^verbatim>\<open>needle\<close> up to the case of its letters.\<close>

lemma sublist_lower_iff:
  "sublist needle (lower s) \<longleftrightarrow> (\<exists>pre mid post. s = pre @ mid @ post \<and> lower mid = needle)"
proof
  assume "sublist needle (lower s)"
  then obtain ps ss where "map lower_char s = ps @ needle @ ss"
    by (auto simp add: sublist_def lower_def)
  then obtain pre rest where s: "s = pre @ rest" and r: "needle @ ss = map lower_char rest"
    unfolding map_eq_append_conv by blast
  from r [symmetric] obtain mid post where "rest = mid @ post" and "map lower_char mid = needle"
    unfolding map_eq_append_conv by blast
  with s show "\<exists>pre mid post. s = pre @ mid @ post \<and> lower mid = needle"
    by (auto simp add: lower_def)
next
  assume "\<exists>pre mid post. s = pre @ mid @ post \<and> lower mid = needle"
  then obtain pre mid post where "s = pre @ mid @ post" and "lower mid = needle" by blast
  then have "lower s = lower pre @ needle @ lower post" by (simp add: lower_def)
  then show "sublist needle (lower s)" by simp
qed

lemma weather_types_emoji_for:
  "(case map_of weather_types s of None \<Rightarrow> emoji_saucer | Some e \<Rightarrow> e) = emoji_for s"
  by (simp add: weather_types_def emoji_for_def)

text \<open>
  Claim C9, as the code has it. For a notification whose message type is a string, or
  absent and then \<^verbatim>\<open>Report\<close>, and whose message body is a string, or absent and then empty:
  the message type is used in the result as it is, recognized or not; the emoji is the
  table's for \<^verbatim>\<open>Report\<close>, \<^verbatim>\<open>Watch\<close>, \<^verbatim>\<open>Warning\<close> and \<^verbatim>\<open>Alert\<close> and that of \<^verbatim>\<open>Report\<close>
  for any other message type; Solar Activity is \<^verbatim>\<open>Active\<close> exactly when the lowered body
  contains \<^verbatim>\<open>flare\<close>, and \<^verbatim>\<open>Calm\<close> otherwise.
\<close>

theorem format_real_weather_entry:
  assumes "map_of kvs ''messageType'' = None \<and> message_type = ''Report''
           \<or> map_of kvs ''messageType'' = Some (PyStr message_type)"
    and "map_of kvs ''messageBody'' = None \<and> body = []
           \<or> map_of kvs ''messageBody'' = Some (PyStr body)"
  shows "\<exists>w aurora. format_real_weather now (PyDict kvs) = Inr w
           \<and> field w ''status''
               = Some (PyStr (emoji_for message_type @ '' Space Weather '' @ message_type))
           \<and> field w ''conditions'' = Some (PyList
                [condition ''Current Activity'' (PyStr message_type) (emoji_for message_type),
                 condition ''Solar Activity''
                   (PyStr (if sublist ''flare'' (lower body) then ''Active'' else ''Calm'')) emoji_sun,
                 aurora])"
  using assms
  by (auto simp add: format_real_weather_def ebind_def field_def weather_types_emoji_for)

theorem format_real_weather_entry_witness:
  "format_real_weather ''09:47 AM''
     (PyDict [(''messageType'', PyStr ''Watch''), (''messageBody'', PyStr ''X-class Flare'')])
   = Inr (PyDict
       [(''status'', PyStr (emoji_warning @ '' Space Weather Watch'')),
        (''conditions'', PyList
           [condition ''Current Activity'' (PyStr ''Watch'') emoji_warning,
            condition ''Solar Activity'' (PyStr ''Active'') emoji_sun,
            condition ''Aurora Forecast'' (PyStr ''Not Visible'') emoji_milky_way]),
        (''description'', PyStr ''X-class Flare''),
        (''time'', PyStr ''09:47 AM'')])"
proof -
  have l: "lower ''X-class Flare'' = ''x-class flare''" by code_simp
  have f: "sublist ''flare'' ''x-class flare''" by code_simp
  have a: "\<not> sublist ''aurora'' ''x-class flare''" by code_simp
  show ?thesis
    using format_real_weather_entry
      [of "[(''messageType'', PyStr ''Watch''), (''messageBody'', PyStr ''X-class Flare'')]"
          "''Watch''" "''X-class Flare''" "''09:47 AM''"]
    by (simp add: format_real_weather_def ebind_def weather_types_def l f a)
qed

text \<open>
  Claim C9 as stated fails: an unrecognized message type is not replaced by \<^verbatim>\<open>Report\<close>.
  For the message type \<^verbatim>\<open>FLR\<close> the status and the Current Activity value carry \<^verbatim>\<open>FLR\<close>;
  only the emoji is that of \<^verbatim>\<open>Report\<close>.
\<close>

theorem format_real_weather_keeps_unrecognized_type:
  "format_real_weather ''09:47 AM''
     (PyDict [(''messageType'', PyStr ''FLR''), (''messageBody'', PyStr ''Quiet'')])
   = Inr (PyDict
       [(''status'', PyStr (emoji_saucer @ '' Space Weather FLR'')),
        (''conditions'', PyList
           [condition ''Current Activity'' (PyStr ''FLR'') emoji_saucer,
            condition ''Solar Activity'' (PyStr ''Calm'') emoji_sun,
            condition ''Aurora Forecast'' (PyStr ''Not Visible'') emoji_milky_way]),
        (''description'', PyStr ''Quiet''),
        (''time'', PyStr ''09:47 AM'')])
   \<and> ''FLR'' \<notin> {''Report'', ''Watch'', ''Warning'', ''Alert''}"
proof -
  have l: "lower ''Quiet'' = ''quiet''" by code_simp
  have f: "\<not> sublist ''flare'' ''quiet''" by code_simp
  have a: "\<not> sublist ''aurora'' ''quiet''" by code_simp
  show ?thesis
    by (simp add: format_real_weather_def ebind_def weather_types_def l f a)
qed

section \<open>The chat\<close>

lemma try_except_total: "\<exists>x. try_except m (\<lambda>e. Inr (h e)) = Inr x"
  by (cases m) (simp_all add: try_except_def)

lemma apology_prefix: "prefix ''Houston, we have a problem!'' (apology e)"
  by (simp add: apology_def)

lemma apology_contains: "sublist (exc_str e) (apology e)"
proof -
  have "sublist (exc_str e)
          ((''Houston, we have a problem! '' @ emoji_rocket
             @ '' Please try asking that question differently. Error: '') @ exc_str e)"
    by (rule sublist_append_leftI)
  then show ?thesis by (simp add: apology_def)
qed

text \<open>
  Claim C2. \<^verbatim>\<open>chat_with_space_expert\<close> returns a string for every message, every service
  and every draw of the fun fact. When the tokenizer, \<^verbatim>\<open>model.generate\<close> or the decoding
  raises an exception, the string returned is the apology built from that exception: it
  starts with \<^verbatim>\<open>Houston, we have a problem!\<close> and contains the exception's description.
\<close>

theorem chat_never_raises:
  "(\<exists>s. chat_with_space_expert service draw message = Inr s)
   \<and> ((tokenizer service (''As a space expert, explain: '' @ message) = Inl e
        \<or> (\<exists>inputs ids. tokenizer service (''As a space expert, explain: '' @ message) = Inr inputs
              \<and> map_of inputs ''input_ids'' = Some ids
              \<and> (generate service ids = Inl e
                  \<or> (\<exists>out outs. generate service ids = Inr (out # outs)
                        \<and> decode service out = Inl e))))
       \<longrightarrow> chat_with_space_expert service draw message = Inr (apology e)
           \<and> prefix ''Houston, we have a problem!'' (apology e)
           \<and> sublist (exc_str e) (apology e))"
proof -
  have "\<exists>s. chat_with_space_expert service draw message = Inr s"
    unfolding chat_with_space_expert_def by (rule try_except_total)
  moreover have "chat_with_space_expert service draw message = Inr (apology e)"
    if "tokenizer service (''As a space expert, explain: '' @ message) = Inl e
        \<or> (\<exists>inputs ids. tokenizer service (''As a space expert, explain: '' @ message) = Inr inputs
              \<and> map_of inputs ''input_ids'' = Some ids
              \<and> (generate service ids = Inl e
                  \<or> (\<exists>out outs. generate service ids = Inr (out # outs)
                        \<and> decode service out = Inl e)))"
    using that
    by (auto simp add: chat_with_space_expert_def try_except_def ebind_def input_ids_def
          first_output_def)
  ultimately show ?thesis using apology_prefix apology_contains by blast
qed

theorem chat_never_raises_witness:
  "chat_with_space_expert
     \<lparr>tokenizer = (\<lambda>p. Inr [(''input_ids'', p)]),
      generate = (\<lambda>ids. Inl (Raised ''RuntimeError'' ''out of memory'')),
      decode = (\<lambda>s::string. Inr s)\<rparr> 7 ''Why do stars twinkle?''
   = Inr (''Houston, we have a problem! '' @ emoji_rocket
          @ '' Please try asking that question differently. Error: out of memory'')"
  using chat_never_raises
    [of "\<lparr>tokenizer = (\<lambda>p. Inr [(''input_ids'', p)]),
          generate = (\<lambda>ids. Inl (Raised ''RuntimeError'' ''out of memory'')),
          decode = (\<lambda>s::string. Inr s)\<rparr>"
        7 "''Why do stars twinkle?''" "Raised ''RuntimeError'' ''out of memory''"]
  by (simp add: apology_def)

subsection \<open>Cleaning the generated text\<close>

text \<open>The last piece of a split is the text behind an occurrence of the separator that
  has no occurrence behind it; a text without the separator is its own single piece.\<close>

lemma split_from_not_Nil: "split_from sep cur s \<noteq> []"
  by (induction sep cur s rule: split_from.induct) auto

lemma split_from_no_occurrence:
  "\<not> sublist sep s \<Longrightarrow> split_from sep cur s = [cur @ s]"
proof (induction sep cur s rule: split_from.induct)
  case (1 sep cur)
  show ?case by simp
next
  case (2 sep cur c cs)
  from "2.prems" have np: "\<not> prefix sep (c # cs)" and ns: "\<not> sublist sep cs"
    by (auto simp add: sublist_Cons_right)
  with "2.IH"(2) show ?case by simp
qed

lemma split_from_last:
  "sep \<noteq> [] \<Longrightarrow> sublist sep s \<Longrightarrow>
     \<exists>pre post. s = pre @ sep @ post \<and> \<not> sublist sep post
        \<and> last (split_from sep cur s) = post"
proof (induction sep cur s rule: split_from.induct)
  case (1 sep cur)
  then show ?case by simp
next
  case (2 sep cur c cs)
  show ?case
  proof (cases "prefix sep (c # cs)")
    case True
    then obtain rest where rest: "c # cs = sep @ rest" by (auto simp add: prefix_def)
    then have d: "drop (length sep) (c # cs) = rest" by simp
    from True "2.prems"(1) have eq: "split_from sep cur (c # cs) = cur # split_from sep [] rest"
      by (simp add: d)
    then have l: "last (split_from sep cur (c # cs)) = last (split_from sep [] rest)"
      by (simp add: split_from_not_Nil)
    show ?thesis
    proof (cases "sublist sep rest")
      case False
      then have "split_from sep [] rest = [rest]" by (simp add: split_from_no_occurrence)
      with l have "last (split_from sep cur (c # cs)) = rest" by simp
      with rest False have "c # cs = [] @ sep @ rest \<and> \<not> sublist sep rest
          \<and> last (split_from sep cur (c # cs)) = rest" by simp
      then show ?thesis by blast
    next
      case s: True
      from "2.IH"(1) True "2.prems"(1) s d obtain pre post where
        "rest = pre @ sep @ post" "\<not> sublist sep post" "last (split_from sep [] rest) = post"
        by auto
      with rest l have "c # cs = (sep @ pre) @ sep @ post \<and> \<not> sublist sep post
          \<and> last (split_from sep cur (c # cs)) = post" by simp
      then show ?thesis by blast
    qed
  next
    case False
    with "2.prems"(2) have s: "sublist sep cs" by (simp add: sublist_Cons_right)
    from False have eq: "split_from sep cur (c # cs) = split_from sep (cur @ [c]) cs" by simp
    from "2.IH"(2) False "2.prems"(1) s obtain pre post where
      "cs = pre @ sep @ post" "\<not> sublist sep post" "last (split_from sep (cur @ [c]) cs) = post"
      by auto
    with eq have "c # cs = (c # pre) @ sep @ post \<and> \<not> sublist sep post
        \<and> last (split_from sep cur (c # cs)) = post" by simp
    then show ?thesis by blast
  qed
qed

lemma marker_lowered: "sublist ''explain:'' r \<Longrightarrow> sublist ''explain:'' (lower r)"
proof -
  assume "sublist ''explain:'' r"
  then have "sublist (map lower_char ''explain:'') (map lower_char r)" by (rule map_mono_sublist)
  moreover have "map lower_char ''explain:'' = ''explain:''" by code_simp
  ultimately show ?thesis by (simp add: lower_def)
qed

text \<open>
  What \<^const>\<open>clean_response\<close> returns: the text as generated when the lowered text has no
  marker; the stripped text behind the last \<^verbatim>\<open>explain:\<close> when the text has one; and the
  stripped text, marker included, when the marker is there in another case only.
\<close>

lemma clean_response_unmarked:
  "\<not> sublist ''explain:'' (lower r) \<Longrightarrow> clean_response r = Inr r"
  by (simp add: clean_response_def)

lemma clean_response_marked:
  assumes "sublist ''explain:'' r"
  shows "\<exists>pre post. r = pre @ ''explain:'' @ post \<and> \<not> sublist ''explain:'' post
           \<and> clean_response r = Inr (strip post)"
proof -
  from split_from_last [of "''explain:''" r "[]"] assms obtain pre post where
    p: "r = pre @ ''explain:'' @ post" "\<not> sublist ''explain:'' post"
       "last (split_from ''explain:'' [] r) = post" by auto
  from assms have "sublist ''explain:'' (lower r)" by (rule marker_lowered)
  then have "clean_response r = Inr (strip (last (split_from ''explain:'' [] r)))"
    by (simp add: clean_response_def py_split_def py_last_def ebind_def split_from_not_Nil)
  with p show ?thesis by metis
qed

lemma clean_response_other_case:
  assumes "sublist ''explain:'' (lower r)" and "\<not> sublist ''explain:'' r"
  shows "clean_response r = Inr (strip r)"
  using assms
  by (simp add: clean_response_def py_split_def py_last_def ebind_def split_from_no_occurrence)

lemma lower_uppercase_marker: "sublist ''explain:'' (lower ''EXPLAIN: stars'')"
  by code_simp

lemma clean_uppercase_marker: "clean_response ''EXPLAIN: stars'' = Inr ''EXPLAIN: stars''"
  by code_simp

text \<open>
  Claim C8 at the generated text \<^verbatim>\<open>EXPLAIN: stars\<close>. The lowered text contains the
  marker \<^verbatim>\<open>explain:\<close>, so the text is split and stripped; the split looks for the marker
  in the text as generated, finds none, and the marker stays in the answer.
\<close>

theorem clean_response_keeps_uppercase_marker:
  "sublist ''explain:'' (lower ''EXPLAIN: stars'')
   \<and> clean_response ''EXPLAIN: stars'' = Inr ''EXPLAIN: stars''
   \<and> chat_with_space_expert
       \<lparr>tokenizer = (\<lambda>p. Inr [(''input_ids'', p)]),
        generate = (\<lambda>ids. Inr [ids]),
        decode = (\<lambda>s::string. Inr ''EXPLAIN: stars'')\<rparr> 0 ''stars''
     = Inr (emoji_rocket @ '' EXPLAIN: stars'' @ [CHR 0x0A, CHR 0x0A] @ emoji_sparkles
            @ '' Fun Fact: A day on Venus is longer than its year! '' @ emoji_open_mouth)"
  by (simp add: lower_uppercase_marker clean_uppercase_marker chat_with_space_expert_def
        try_except_def ebind_def input_ids_def first_output_def choice_def fun_facts_def)

section \<open>The image search\<close>

subsection \<open>The loop\<close>

text \<open>When the loop returns, it has added the images of the linked items, in their order.\<close>

lemma collect_images_Inr:
  "collect_images acc items = Inr imgs \<Longrightarrow>
     \<exists>new. imgs = acc @ new \<and> map Inr new = map image_data (linked items)"
proof (induction items arbitrary: acc)
  case Nil
  then show ?case by (simp add: linked_def)
next
  case (Cons item items)
  show ?case
  proof (cases "has_links item")
    case (Inl e)
    with Cons.prems show ?thesis by simp
  next
    case (Inr b)
    show ?thesis
    proof (cases b)
      case False
      with Inr Cons.prems have "collect_images acc items = Inr imgs" by simp
      from Cons.IH [OF this] Inr False show ?thesis by (simp add: linked_def)
    next
      case True
      with Inr Cons.prems obtain d where d: "image_data item = Inr d"
        and rest: "collect_images (acc @ [d]) items = Inr imgs"
        by (auto split: sum.splits)
      from Cons.IH [OF rest] obtain new where "imgs = (acc @ [d]) @ new"
        and "map Inr new = map image_data (linked items)" by blast
      then have "imgs = acc @ (d # new)
          \<and> map Inr (d # new) = map image_data (linked (item # items))"
        using Inr True d by (simp add: linked_def)
      then show ?thesis by blast
    qed
  qed
qed

text \<open>A linked item whose image cannot be built makes the loop raise, whatever was
  collected before it.\<close>

lemma collect_images_Inl:
  "i < length items \<Longrightarrow> has_links (items ! i) = Inr True \<Longrightarrow> image_data (items ! i) = Inl e
     \<Longrightarrow> \<exists>e'. collect_images acc items = Inl e'"
proof (induction items arbitrary: acc i)
  case Nil
  then show ?case by simp
next
  case (Cons item items)
  show ?case
  proof (cases i)
    case 0
    with Cons.prems show ?thesis by simp
  next
    case (Suc j)
    with Cons.prems have j: "j < length items" "has_links (items ! j) = Inr True"
      "image_data (items ! j) = Inl e" by simp_all
    from Cons.IH [OF j] have "\<And>acc'. \<exists>e'. collect_images acc' items = Inl e'" .
    then show ?thesis
      by (cases "has_links item"; cases "image_data item") (auto split: bool.splits)
  qed
qed

lemma search_200:
  assumes "net (search_url query) = Response 200 (Inr (PyDict body))"
    and "map_of body ''collection'' = Some (PyDict coll)"
    and "map_of coll ''items'' = Some (PyList items)"
  shows "search_nasa_images net query =
           (case collect_images [] (take 5 items) of
              Inl e \<Rightarrow> Inr (failure (exc_str e))
            | Inr images \<Rightarrow> Inr (PyDict [(''success'', PyBool True), (''images'', PyList images)]))"
proof -
  from assms(3) have "(''items'', PyList items) \<in> set coll" by (rule map_of_SomeD)
  then have "''items'' \<in> fst ` set coll" by force
  with assms show ?thesis
    by (simp add: search_nasa_images_def try_except_def ebind_def split: sum.splits)
qed

subsection \<open>The example responses\<close>

lemma has_links_with: "has_links (item_with_link t h) = Inr True"
  by (simp add: has_links_def item_with_link_def ebind_def)

lemma has_links_without: "has_links (item_without_links t) = Inr False"
  by (simp add: has_links_def item_without_links_def ebind_def)

lemma image_data_with: "image_data (item_with_link t h) = Inr (image_of t h)"
  by (simp add: image_data_def item_with_link_def image_of_def ebind_def)

lemma search_body_200:
  "search_nasa_images (\<lambda>u. Response 200 (Inr (search_body items))) query =
     (case collect_images [] (take 5 items) of
        Inl e \<Rightarrow> Inr (failure (exc_str e))
      | Inr images \<Rightarrow> Inr (PyDict [(''success'', PyBool True), (''images'', PyList images)]))"
  by (rule search_200 [where body = "[(''collection'', PyDict [(''items'', PyList items)])]"
        and coll = "[(''items'', PyList items)]"]) (simp_all add: search_body_def)

lemma take5_of_six: "take 5 [a, b, c, d, e, f] = [a, b, c, d, e]"
  by (simp add: take_Cons')

subsection \<open>Length and order of the images\<close>

text \<open>
  Claim C3, as the code has it. For a 200 response whose collection has the items
  \<^verbatim>\<open>items\<close>, a successful result holds one image for each of the first five items that has
  a non-empty \<^verbatim>\<open>links\<close>, in the order of the response: its length is the number of such
  items among the first five.
\<close>

theorem search_images_first_five:
  assumes "net (search_url query) = Response 200 (Inr (PyDict body))"
    and "map_of body ''collection'' = Some (PyDict coll)"
    and "map_of coll ''items'' = Some (PyList items)"
    and "search_nasa_images net query = Inr r"
    and "field r ''success'' = Some (PyBool True)"
  shows "\<exists>images. field r ''images'' = Some (PyList images)
           \<and> length images = length (linked (take 5 items))
           \<and> map Inr images = map image_data (linked (take 5 items))"
proof (cases "collect_images [] (take 5 items)")
  case (Inl e)
  with search_200 [of net query, OF assms(1-3)] assms(4,5) show ?thesis
    by (auto simp add: failure_def field_def)
next
  case (Inr images)
  from collect_images_Inr [OF Inr]
  have m: "map Inr images = map image_data (linked (take 5 items))" by simp
  then have "length (map Inr images :: (exception + py) list)
      = length (map image_data (linked (take 5 items)))" by simp
  then have "length images = length (linked (take 5 items))" by simp
  with m Inr search_200 [of net query, OF assms(1-3)] assms(4) show ?thesis
    by (auto simp add: field_def)
qed

theorem search_images_first_five_witness:
  "search_nasa_images
     (\<lambda>u. Response 200 (Inr (search_body
        [item_with_link ''a'' ''u1'', item_without_links ''b'', item_with_link ''c'' ''u3''])))
     ''moon''
   = Inr (PyDict [(''success'', PyBool True),
                  (''images'', PyList [image_of ''a'' ''u1'', image_of ''c'' ''u3''])])
   \<and> linked (take 5 [item_with_link ''a'' ''u1'', item_without_links ''b'', item_with_link ''c'' ''u3''])
     = [item_with_link ''a'' ''u1'', item_with_link ''c'' ''u3'']"
  using search_images_first_five
    [of "\<lambda>u. Response 200 (Inr (search_body
            [item_with_link ''a'' ''u1'', item_without_links ''b'', item_with_link ''c'' ''u3'']))"
        "''moon''"
        "[(''collection'', PyDict [(''items'', PyList
            [item_with_link ''a'' ''u1'', item_without_links ''b'', item_with_link ''c'' ''u3''])])]"
        "[(''items'', PyList
            [item_with_link ''a'' ''u1'', item_without_links ''b'', item_with_link ''c'' ''u3''])]"
        "[item_with_link ''a'' ''u1'', item_without_links ''b'', item_with_link ''c'' ''u3'']"
        "PyDict [(''success'', PyBool True),
                 (''images'', PyList [image_of ''a'' ''u1'', image_of ''c'' ''u3''])]"]
  by (simp add: search_body_200 linked_def has_links_with has_links_without image_data_with)

text \<open>
  Claim C3 as stated fails: the cap is on the items visited, not on the images. Of six
  items of which only the first has no links, five have a non-empty \<^verbatim>\<open>links\<close>, and the
  result has four images.
\<close>

theorem search_cap_counts_first_five_only:
  "search_nasa_images
     (\<lambda>u. Response 200 (Inr (search_body
        [item_without_links ''a'', item_with_link ''b'' ''u2'', item_with_link ''c'' ''u3'',
         item_with_link ''d'' ''u4'', item_with_link ''e'' ''u5'', item_with_link ''f'' ''u6''])))
     ''moon''
   = Inr (PyDict [(''success'', PyBool True),
                  (''images'', PyList [image_of ''b'' ''u2'', image_of ''c'' ''u3'',
                                      image_of ''d'' ''u4'', image_of ''e'' ''u5''])])
   \<and> min 5 (length (linked
        [item_without_links ''a'', item_with_link ''b'' ''u2'', item_with_link ''c'' ''u3'',
         item_with_link ''d'' ''u4'', item_with_link ''e'' ''u5'', item_with_link ''f'' ''u6''])) = 5"
  by (simp add: search_body_200 take5_of_six linked_def has_links_with has_links_without
        image_data_with)

subsection \<open>The url of an image\<close>

lemma linked_image_url:
  assumes "has_links item = Inr True" and "image_data item = Inr img"
  shows "\<exists>links link url. py_getitem item ''links'' = Inr links \<and> truthy links
           \<and> py_getitem0 links = Inr link \<and> py_getitem link ''href'' = Inr url
           \<and> field img ''url'' = Some url"
  using assms
  by (auto simp add: has_links_def image_data_def ebind_def field_def split: sum.splits if_splits)

text \<open>
  Claim C7, as the code has it. Every image of a successful result comes from one of the
  first five items, that item has a non-empty \<^verbatim>\<open>links\<close>, and the url of the image is the
  \<^verbatim>\<open>href\<close> of its first link, whatever that value is: an item without a link entry is
  never included.
\<close>

theorem search_image_url_is_first_href:
  assumes "net (search_url query) = Response 200 (Inr (PyDict body))"
    and "map_of body ''collection'' = Some (PyDict coll)"
    and "map_of coll ''items'' = Some (PyList items)"
    and "search_nasa_images net query = Inr r"
    and "field r ''success'' = Some (PyBool True)"
    and "field r ''images'' = Some (PyList images)"
    and "img \<in> set images"
  shows "\<exists>item links link url. item \<in> set (take 5 items)
           \<and> py_getitem item ''links'' = Inr links \<and> truthy links
           \<and> py_getitem0 links = Inr link \<and> py_getitem link ''href'' = Inr url
           \<and> field img ''url'' = Some url"
proof (cases "collect_images [] (take 5 items)")
  case (Inl e)
  with search_200 [of net query, OF assms(1-3)] assms(4,5) show ?thesis
    by (auto simp add: failure_def field_def)
next
  case (Inr imgs)
  with search_200 [of net query, OF assms(1-3)] assms(4,6) have "imgs = images"
    by (auto simp add: field_def)
  with collect_images_Inr [OF Inr]
  have "map Inr images = map image_data (linked (take 5 items))" by simp
  moreover from assms(7) have "Inr img \<in> set (map Inr images :: (exception + py) list)" by simp
  ultimately have "Inr img \<in> image_data ` set (linked (take 5 items))" by simp
  then obtain item where "item \<in> set (linked (take 5 items))" and "image_data item = Inr img"
    by auto
  then have "item \<in> set (take 5 items)" and "has_links item = Inr True"
    and "image_data item = Inr img"
    by (simp_all add: linked_def)
  with linked_image_url show ?thesis by blast
qed

theorem search_image_url_is_first_href_witness:
  "search_nasa_images
     (\<lambda>u. Response 200 (Inr (search_body
        [item_without_links ''a'', item_with_link ''b'' ''https://images.nasa.gov/b.jpg''])))
     ''moon''
   = Inr (PyDict [(''success'', PyBool True),
                  (''images'', PyList [image_of ''b'' ''https://images.nasa.gov/b.jpg''])])
   \<and> field (image_of ''b'' ''https://images.nasa.gov/b.jpg'') ''url''
     = Some (PyStr ''https://images.nasa.gov/b.jpg'')"
  using search_image_url_is_first_href
    [of "\<lambda>u. Response 200 (Inr (search_body
            [item_without_links ''a'', item_with_link ''b'' ''https://images.nasa.gov/b.jpg'']))"
        "''moon''"
        "[(''collection'', PyDict [(''items'', PyList
            [item_without_links ''a'', item_with_link ''b'' ''https://images.nasa.gov/b.jpg''])])]"
        "[(''items'', PyList
            [item_without_links ''a'', item_with_link ''b'' ''https://images.nasa.gov/b.jpg''])]"
        "[item_without_links ''a'', item_with_link ''b'' ''https://images.nasa.gov/b.jpg'']"
        "PyDict [(''success'', PyBool True),
                 (''images'', PyList [image_of ''b'' ''https://images.nasa.gov/b.jpg''])]"
        "[image_of ''b'' ''https://images.nasa.gov/b.jpg'']"
        "image_of ''b'' ''https://images.nasa.gov/b.jpg''"]
  by (simp add: search_body_200 has_links_with has_links_without image_data_with field_def
        image_of_def)

text \<open>
  Claim C7 as stated fails: nothing tests the \<^verbatim>\<open>href\<close>. An item whose first link has an
  empty \<^verbatim>\<open>href\<close> is included, with an empty url.
\<close>

theorem search_empty_href_included:
  "search_nasa_images (\<lambda>u. Response 200 (Inr (search_body [item_with_link ''a'' []]))) ''moon''
   = Inr (PyDict [(''success'', PyBool True), (''images'', PyList [image_of ''a'' []])])
   \<and> field (image_of ''a'' []) ''url'' = Some (PyStr [])"
  by (simp add: search_body_200 has_links_with image_data_with field_def image_of_def)

subsection \<open>One malformed item fails the whole search\<close>

lemma image_data_raises:
  assumes "map_of kvs ''links'' = Some (PyList (l # ls))"
    and "map_of kvs ''data'' = None \<or> map_of kvs ''data'' = Some (PyList [])
           \<or> (\<exists>lkvs. l = PyDict lkvs \<and> map_of lkvs ''href'' = None)"
  shows "\<exists>e. image_data (PyDict kvs) = Inl e"
  using assms by (auto simp add: image_data_def ebind_def split: sum.splits option.splits)

text \<open>
  Claim C10. In a 200 response, let one of the first five items have a non-empty \<^verbatim>\<open>links\<close>
  list and have no \<^verbatim>\<open>data\<close> key, or an empty \<^verbatim>\<open>data\<close> list, or a first link without
  \<^verbatim>\<open>href\<close>. Then the search returns \<^verbatim>\<open>success\<close> false with an error string and no
  images, also when well-formed items came before that one.
\<close>

theorem search_not_atomic:
  assumes "net (search_url query) = Response 200 (Inr (PyDict body))"
    and "map_of body ''collection'' = Some (PyDict coll)"
    and "map_of coll ''items'' = Some (PyList items)"
    and "i < 5" and "i < length items"
    and "items ! i = PyDict kvs"
    and "map_of kvs ''links'' = Some (PyList (l # ls))"
    and "map_of kvs ''data'' = None \<or> map_of kvs ''data'' = Some (PyList [])
           \<or> (\<exists>lkvs. l = PyDict lkvs \<and> map_of lkvs ''href'' = None)"
  shows "\<exists>msg. search_nasa_images net query
            = Inr (PyDict [(''success'', PyBool False), (''error'', PyStr msg)])"
proof -
  from assms(7) have "(''links'', PyList (l # ls)) \<in> set kvs" by (rule map_of_SomeD)
  then have "''links'' \<in> fst ` set kvs" by force
  with assms(7) have h: "has_links (PyDict kvs) = Inr True"
    by (simp add: has_links_def ebind_def)
  from image_data_raises [OF assms(7,8)] obtain e where e: "image_data (PyDict kvs) = Inl e" ..
  have "i < length (take 5 items)" using assms(4,5) by simp
  moreover have "take 5 items ! i = PyDict kvs" using assms(4,6) by simp
  ultimately obtain e' where "collect_images [] (take 5 items) = Inl e'"
    using collect_images_Inl [of i "take 5 items" e "[]"] h e by auto
  with search_200 [of net query, OF assms(1-3)] show ?thesis by (simp add: failure_def)
qed

theorem search_not_atomic_witness:
  "search_nasa_images
     (\<lambda>u. Response 200 (Inr (search_body
        [item_with_link ''a'' ''u1'',
         PyDict [(''links'', PyList [PyDict [(''href'', PyStr ''u2'')]])]])))
     ''moon''
   = Inr (PyDict [(''success'', PyBool False), (''error'', PyStr (quoted ''data''))])"
proof -
  have h: "has_links (PyDict [(''links'', PyList [PyDict [(''href'', PyStr ''u2'')]])]) = Inr True"
    by (simp add: has_links_def ebind_def)
  have d: "image_data (PyDict [(''links'', PyList [PyDict [(''href'', PyStr ''u2'')]])])
             = Inl (key_error (quoted ''data''))"
    by (simp add: image_data_def ebind_def)
  show ?thesis
  using search_not_atomic
    [of "\<lambda>u. Response 200 (Inr (search_body
            [item_with_link ''a'' ''u1'',
             PyDict [(''links'', PyList [PyDict [(''href'', PyStr ''u2'')]])]]))"
        "''moon''"
        "[(''collection'', PyDict [(''items'', PyList
            [item_with_link ''a'' ''u1'',
             PyDict [(''links'', PyList [PyDict [(''href'', PyStr ''u2'')]])]])])]"
        "[(''items'', PyList
            [item_with_link ''a'' ''u1'',
             PyDict [(''links'', PyList [PyDict [(''href'', PyStr ''u2'')]])]])]"
        "[item_with_link ''a'' ''u1'',
          PyDict [(''links'', PyList [PyDict [(''href'', PyStr ''u2'')]])]]"
        1
        "[(''links'', PyList [PyDict [(''href'', PyStr ''u2'')]])]"
        "PyDict [(''href'', PyStr ''u2'')]" "[]"]
  by (simp add: search_body_200 has_links_with image_data_with h d failure_def key_error_def)
qed

end
